theory Spec2Isabelle
  imports Main "HOL-Library.AList"
begin

section \<open>Portfolio API: the request handlers of main.py\<close>

text \<open>
  The handlers of \<^verbatim>\<open>main.py\<close> read and write two things: the module-level list
  \<^verbatim>\<open>SAMPLE_PROJECTS\<close> (a list of references to dict objects) and the document
  store behind \<^verbatim>\<open>database.db\<close>. Python passes dicts by reference and
  \<^verbatim>\<open>list_projects\<close> and \<^verbatim>\<open>get_project\<close> mutate the dicts they are about to return,
  so dict objects live in an explicit heap and the handlers pass the state along.
\<close>

subsection \<open>Values, dicts, exceptions\<close>

datatype pyval =
    PNone
  | PBool bool
  | PInt int
  | PStr string
  | PList "pyval list"
  | PObjectId string

text \<open>
  A dict is an association list in insertion order: \<^verbatim>\<open>k in d\<close> and \<^verbatim>\<open>d[k]\<close> are
  \<^const>\<open>map_of\<close>, \<^verbatim>\<open>d.pop(k)\<close> is \<^const>\<open>AList.delete\<close>, \<^verbatim>\<open>d[k] = v\<close> is
  \<^const>\<open>AList.update\<close> (in place when the key is there, appended otherwise).
\<close>

type_synonym pydict = "(string \<times> pyval) list"

type_synonym ref = nat

text \<open>
  Everything that is raised here is an instance of Python's \<^verbatim>\<open>Exception\<close>:
  what a collaborator raises, the \<^verbatim>\<open>KeyError\<close> of \<^verbatim>\<open>p["slug"]\<close>, and FastAPI's
  \<^verbatim>\<open>HTTPException(status_code, detail)\<close>. An \<^verbatim>\<open>except Exception\<close> clause catches
  all three.
\<close>

datatype exn =
    Exception string
  | KeyError string
  | HTTPException int string

subsection \<open>The collaborators of main.py\<close>

text \<open>
  Modelled from the spec: \<^verbatim>\<open>database.py\<close> and \<^verbatim>\<open>schemas.py\<close> are imported by
  \<^verbatim>\<open>main.py\<close> and are not part of the source at hand. The spec describes the store as
  an external document database reached through \<^verbatim>\<open>create_document(collection, doc)\<close> and
  \<^verbatim>\<open>get_documents(collection, filter, limit)\<close>, with a handle that may be null, and the
  message schema as a second structural check of the contact payload. They are
  parameters of the handlers: \<open>'s\<close> is the state of the external database, each call
  returns a value or raises and leaves a new database state. The database is external,
  so a document goes in by value (the caller's dict is not written to) and every record
  that comes out is a new dict object. \<^verbatim>\<open>str\<close> is Python's builtin.
\<close>

record 's env =
  db :: bool
  get_documents :: "'s \<Rightarrow> string \<Rightarrow> pydict \<Rightarrow> int \<Rightarrow> (exn + pydict list) \<times> 's"
  create_document :: "'s \<Rightarrow> string \<Rightarrow> pydict \<Rightarrow> (exn + string) \<times> 's"
  MessageSchema :: "string \<Rightarrow> string \<Rightarrow> string \<Rightarrow> exn + pydict"
  py_str :: "pyval \<Rightarrow> string"

record ContactRequest =
  name :: string
  email :: string
  message :: string

subsection \<open>Process state\<close>

text \<open>
  \<open>heap\<close> holds the dict objects, a reference is an index into it;
  \<open>sample_projects\<close> is the list object bound to the global \<^verbatim>\<open>SAMPLE_PROJECTS\<close>;
  \<open>store\<close> is the state of the external database. A reference the program holds
  always points to an object; \<open>sample_intact\<close> below says so for the references of
  the Sample Dataset, and the references a query returns are allocated by it.
\<close>

record 's state =
  heap :: "pydict list"
  sample_projects :: "ref list"
  store :: 's

text \<open>The literal of lines 27 to 68.\<close>

definition SAMPLE_PROJECTS :: "pydict list" where
  "SAMPLE_PROJECTS =
    [ [ (''title'', PStr ''Immersive Brand Microsite''),
        (''role'', PStr ''Lead 3D & Frontend''),
        (''year'', PInt 2024),
        (''description'', PStr ''A lightweight WebGL brand experience with scroll-driven narrative and Spline-authored hero.''),
        (''tech'', PList [PStr ''React'', PStr ''Three.js'', PStr ''Spline'', PStr ''Framer Motion'']),
        (''images'', PList
           [ PStr ''https://images.unsplash.com/photo-1517694712202-14dd9538aa97?q=80&w=1600&auto=format&fit=crop'',
             PStr ''https://images.unsplash.com/photo-1504639725590-34d0984388bd?q=80&w=1600&auto=format&fit=crop'' ]),
        (''slug'', PStr ''immersive-brand-microsite''),
        (''featured'', PBool True),
        (''url'', PStr ''https://example.com/project/immersive-brand-microsite'') ],
      [ (''title'', PStr ''Realtime Product Configurator''),
        (''role'', PStr ''3D Developer''),
        (''year'', PInt 2023),
        (''description'', PStr ''GPU-optimized configurator with LOD meshes, compressed textures, and AR preview.''),
        (''tech'', PList [PStr ''React'', PStr ''r3f'', PStr ''GLTF'', PStr ''WebGL'']),
        (''images'', PList
           [ PStr ''https://images.unsplash.com/photo-1518779578993-ec3579fee39f?q=80&w=1600&auto=format&fit=crop'' ]),
        (''slug'', PStr ''realtime-product-configurator''),
        (''featured'', PBool True),
        (''url'', PStr ''https://example.com/project/realtime-product-configurator'') ],
      [ (''title'', PStr ''Data-Driven Portfolio Engine''),
        (''role'', PStr ''Full-Stack Engineer''),
        (''year'', PInt 2022),
        (''description'', PStr ''Composable portfolio with CMS, structured data, and blazing-fast edge rendering.''),
        (''tech'', PList [PStr ''Next.js'', PStr ''MongoDB'', PStr ''Edge Runtime'']),
        (''images'', PList
           [ PStr ''https://images.unsplash.com/photo-1516259762381-22954d7d3ad2?q=80&w=1600&auto=format&fit=crop'' ]),
        (''slug'', PStr ''data-driven-portfolio-engine''),
        (''featured'', PBool True),
        (''url'', PStr ''https://example.com/project/data-driven-portfolio-engine'') ] ]"

text \<open>
  Loading the module evaluates the literal: three dict objects, and the list of
  references to them bound to \<^verbatim>\<open>SAMPLE_PROJECTS\<close>.
\<close>

definition module_load :: "'s \<Rightarrow> 's state" where
  "module_load s =
     \<lparr> heap = SAMPLE_PROJECTS, sample_projects = [0 ..< length SAMPLE_PROJECTS], store = s \<rparr>"

text \<open>What a response shows of a list of references: the dicts they point to.\<close>

definition deref :: "'s state \<Rightarrow> ref list \<Rightarrow> pydict list" where
  "deref st rs = map (\<lambda>r. heap st ! r) rs"

text \<open>
  The Sample Dataset is as loaded: every reference of the list points into the heap
  and the dicts read there are the literal's, in its order.
\<close>

definition sample_intact :: "'s state \<Rightarrow> bool" where
  "sample_intact st \<longleftrightarrow>
     list_all (\<lambda>r. r < length (heap st)) (sample_projects st) \<and>
     deref st (sample_projects st) = SAMPLE_PROJECTS"

subsection \<open>Python expressions used by the handlers\<close>

text \<open>\<^verbatim>\<open>limit or 50\<close>: \<^verbatim>\<open>None\<close> and \<^verbatim>\<open>0\<close> are falsy.\<close>

definition limit_or_50 :: "int option \<Rightarrow> int" where
  "limit_or_50 limit = (case limit of None \<Rightarrow> 50 | Some n \<Rightarrow> if n = 0 then 50 else n)"

text \<open>\<^verbatim>\<open>xs[:n]\<close>: a negative \<^verbatim>\<open>n\<close> counts from the end.\<close>

definition slice_to :: "'a list \<Rightarrow> int \<Rightarrow> 'a list" where
  "slice_to xs n = (if 0 \<le> n then take (nat n) xs else take (nat (int (length xs) + n)) xs)"

text \<open>
  \<^verbatim>\<open>if "_id" in d: d["id"] = str(d.pop("_id"))\<close>: the value of the dict object
  after the statement.
\<close>

definition rename_id :: "(pyval \<Rightarrow> string) \<Rightarrow> pydict \<Rightarrow> pydict" where
  "rename_id to_str d =
     (case map_of d ''_id'' of
        None \<Rightarrow> d
      | Some v \<Rightarrow> AList.update ''id'' (PStr (to_str v)) (AList.delete ''_id'' d))"

subsection \<open>Calls into the store\<close>

text \<open>
  Modelled from the spec: the call \<^verbatim>\<open>get_documents(collection, filter, limit=n)\<close> of
  the absent \<^verbatim>\<open>database.py\<close>. The records an external database returns are new dict
  objects: they are allocated at the end of the heap and the call returns their
  references. A call that raises allocates nothing.
\<close>

definition call_get_documents ::
  "'s env \<Rightarrow> string \<Rightarrow> pydict \<Rightarrow> int \<Rightarrow> 's state \<Rightarrow> (exn + ref list) \<times> 's state" where
  "call_get_documents E coll flt n st =
     (case get_documents E (store st) coll flt n of
        (Inl e, s') \<Rightarrow> (Inl e, st\<lparr>store := s'\<rparr>)
      | (Inr docs, s') \<Rightarrow>
          (Inr [length (heap st) ..< length (heap st) + length docs],
           st\<lparr>heap := heap st @ docs, store := s'\<rparr>))"

text \<open>
  Modelled from the spec: the call \<^verbatim>\<open>create_document(collection, p)\<close> of the absent
  \<^verbatim>\<open>database.py\<close>, for a dict object \<^verbatim>\<open>p\<close> of the heap. The external database is
  given the value of the dict; the dict object itself is left as it is.
\<close>

definition call_create_document ::
  "'s env \<Rightarrow> string \<Rightarrow> ref \<Rightarrow> 's state \<Rightarrow> (exn + string) \<times> 's state" where
  "call_create_document E coll p st =
     (case create_document E (store st) coll (heap st ! p) of
        (r, s') \<Rightarrow> (r, st\<lparr>store := s'\<rparr>))"

subsection \<open>list_projects (lines 114 to 137)\<close>

text \<open>
  Lines 122 to 126: one \<^verbatim>\<open>create_document\<close> per entry, each in its own
  \<^verbatim>\<open>try\<close>; \<^verbatim>\<open>except Exception: pass\<close> goes on with the next entry.
\<close>

fun seed :: "'s env \<Rightarrow> ref list \<Rightarrow> 's state \<Rightarrow> 's state" where
  "seed E [] st = st"
| "seed E (p # ps) st =
     (case call_create_document E ''project'' p st of
        (Inl e, st') \<Rightarrow> seed E ps st'
      | (Inr i, st') \<Rightarrow> seed E ps st')"

text \<open>Lines 129 to 131: the loop over \<^verbatim>\<open>docs\<close>, writing to each dict object.\<close>

fun expose_ids :: "'s env \<Rightarrow> ref list \<Rightarrow> 's state \<Rightarrow> 's state" where
  "expose_ids E [] st = st"
| "expose_ids E (d # ds) st =
     expose_ids E ds (st\<lparr>heap := (heap st)[d := rename_id (py_str E) (heap st ! d)]\<rparr>)"

text \<open>
  The \<^verbatim>\<open>try\<close> block, lines 117 to 134: \<open>Some docs\<close> is \<^verbatim>\<open>return {"projects": docs}\<close>;
  \<open>None\<close> is falling through to line 136, because \<^verbatim>\<open>db\<close> is \<^verbatim>\<open>None\<close> or because an
  exception reached \<^verbatim>\<open>except Exception: pass\<close>.
\<close>

definition list_projects_try ::
  "'s env \<Rightarrow> int option \<Rightarrow> 's state \<Rightarrow> ref list option \<times> 's state" where
  "list_projects_try E limit st =
     (if db E then
        (case call_get_documents E ''project'' [] (limit_or_50 limit) st of
           (Inl e, st1) \<Rightarrow> (None, st1)
         | (Inr docs, st1) \<Rightarrow>
             if docs = [] then
               (case call_get_documents E ''project'' [] (limit_or_50 limit)
                       (seed E (sample_projects st1) st1) of
                  (Inl e, st3) \<Rightarrow> (None, st3)
                | (Inr docs', st3) \<Rightarrow> (Some docs', expose_ids E docs' st3))
             else (Some docs, expose_ids E docs st1))
      else (None, st))"

text \<open>
  Line 136: \<^verbatim>\<open>SAMPLE_PROJECTS[:limit] if limit else SAMPLE_PROJECTS\<close>, for the list
  \<open>samples\<close> bound to \<^verbatim>\<open>SAMPLE_PROJECTS\<close>.
\<close>

definition sample_fallback :: "int option \<Rightarrow> 'a list \<Rightarrow> 'a list" where
  "sample_fallback limit samples =
     (case limit of
        None \<Rightarrow> samples
      | Some n \<Rightarrow> if n = 0 then samples else slice_to samples n)"

text \<open>The handler; its value is the list under the key \<^verbatim>\<open>"projects"\<close>.\<close>

definition list_projects ::
  "'s env \<Rightarrow> int option \<Rightarrow> 's state \<Rightarrow> (exn + ref list) \<times> 's state" where
  "list_projects E limit st =
     (case list_projects_try E limit st of
        (Some docs, st') \<Rightarrow> (Inr docs, st')
      | (None, st') \<Rightarrow> (Inr (sample_fallback limit (sample_projects st')), st'))"

subsection \<open>get_project (lines 140 to 156)\<close>

text \<open>
  The \<^verbatim>\<open>try\<close> block, lines 142 to 151: \<open>Some d\<close> is \<^verbatim>\<open>return d\<close> for the first
  record \<^verbatim>\<open>docs[0]\<close>, after the statement of lines 147 to 148 on that one dict;
  \<open>None\<close> is falling through to line 153.
\<close>

definition get_project_try :: "'s env \<Rightarrow> string \<Rightarrow> 's state \<Rightarrow> ref option \<times> 's state" where
  "get_project_try E slug st =
     (if db E then
        (case call_get_documents E ''project'' [(''slug'', PStr slug)] 1 st of
           (Inl e, st1) \<Rightarrow> (None, st1)
         | (Inr docs, st1) \<Rightarrow>
             (case docs of
                [] \<Rightarrow> (None, st1)
              | d # ds \<Rightarrow> (Some d, expose_ids E [d] st1)))
      else (None, st))"

text \<open>
  Lines 153 to 156: the scan of the list, then the 404. \<^verbatim>\<open>p["slug"]\<close> raises
  \<^verbatim>\<open>KeyError\<close> on a dict without that key.
\<close>

fun scan_samples :: "pydict list \<Rightarrow> string \<Rightarrow> ref list \<Rightarrow> exn + ref" where
  "scan_samples h slug [] = Inl (HTTPException 404 ''Project not found'')"
| "scan_samples h slug (p # ps) =
     (case map_of (h ! p) ''slug'' of
        None \<Rightarrow> Inl (KeyError ''slug'')
      | Some v \<Rightarrow> if v = PStr slug then Inr p else scan_samples h slug ps)"

definition get_project :: "'s env \<Rightarrow> string \<Rightarrow> 's state \<Rightarrow> (exn + ref) \<times> 's state" where
  "get_project E slug st =
     (case get_project_try E slug st of
        (Some d, st') \<Rightarrow> (Inr d, st')
      | (None, st') \<Rightarrow> (scan_samples (heap st') slug (sample_projects st'), st'))"

subsection \<open>submit_contact (lines 159 to 170)\<close>

text \<open>
  Line 162 is outside the \<^verbatim>\<open>try\<close>: what the schema raises leaves the handler.
  The value is the response dict itself.
\<close>

definition submit_contact ::
  "'s env \<Rightarrow> ContactRequest \<Rightarrow> 's state \<Rightarrow> (exn + pydict) \<times> 's state" where
  "submit_contact E payload st =
     (case MessageSchema E (name payload) (email payload) (message payload) of
        Inl e \<Rightarrow> (Inl e, st)
      | Inr msg \<Rightarrow>
          if db E then
            (case create_document E (store st) ''message'' msg of
               (Inr i, s') \<Rightarrow> (Inr [(''status'', PStr ''ok''), (''id'', PStr i)], st\<lparr>store := s'\<rparr>)
             | (Inl e, s') \<Rightarrow> (Inr [(''status'', PStr ''ok''), (''id'', PNone)], st\<lparr>store := s'\<rparr>))
          else (Inr [(''status'', PStr ''ok''), (''id'', PNone)], st))"

subsection \<open>What the caller sees\<close>

text \<open>
  FastAPI serialises what a handler returns at the moment it returns: the dicts behind
  the references, read in the state the handler leaves. A raised exception is the
  response itself.
\<close>

definition response_projects :: "(exn + ref list) \<times> 's state \<Rightarrow> exn + pydict list" where
  "response_projects x = (case fst x of Inl e \<Rightarrow> Inl e | Inr rs \<Rightarrow> Inr (deref (snd x) rs))"

definition response_project :: "(exn + ref) \<times> 's state \<Rightarrow> exn + pydict" where
  "response_project x = (case fst x of Inl e \<Rightarrow> Inl e | Inr r \<Rightarrow> Inr (heap (snd x) ! r))"

subsection \<open>Observing the calls a handler makes\<close>

text \<open>
  The handlers are parametric in the store, so the calls they make can be read off a
  store that records them: \<open>logged E\<close> behaves as \<open>E\<close> and appends every call, whether
  it returns or raises, to a log kept beside the state of \<open>E\<close>.
\<close>

datatype call = GetDocuments string pydict int | CreateDocument string pydict

definition logged :: "'s env \<Rightarrow> ('s \<times> call list) env" where
  "logged E =
     \<lparr> db = db E,
       get_documents = (\<lambda>sl coll flt n.
          case get_documents E (fst sl) coll flt n of
            (r, s') \<Rightarrow> (r, (s', snd sl @ [GetDocuments coll flt n]))),
       create_document = (\<lambda>sl coll d.
          case create_document E (fst sl) coll d of
            (r, s') \<Rightarrow> (r, (s', snd sl @ [CreateDocument coll d]))),
       MessageSchema = MessageSchema E,
       py_str = py_str E \<rparr>"

definition with_log :: "'s state \<Rightarrow> ('s \<times> call list) state" where
  "with_log st = \<lparr> heap = heap st, sample_projects = sample_projects st, store = (store st, []) \<rparr>"

subsection \<open>Sequences of requests\<close>

text \<open>
  The three endpoints that mention \<^verbatim>\<open>SAMPLE_PROJECTS\<close> or the store accessors, and the
  process state after a sequence of requests to them.
\<close>

datatype request = ListProjects "int option" | GetProject string | SubmitContact ContactRequest

fun handle :: "'s env \<Rightarrow> request \<Rightarrow> 's state \<Rightarrow> 's state" where
  "handle E (ListProjects limit) st = snd (list_projects E limit st)"
| "handle E (GetProject slug) st = snd (get_project E slug st)"
| "handle E (SubmitContact payload) st = snd (submit_contact E payload st)"

fun serve :: "'s env \<Rightarrow> request list \<Rightarrow> 's state \<Rightarrow> 's state" where
  "serve E [] st = st"
| "serve E (r # rs) st = serve E rs (handle E r st)"

subsection \<open>When the store gives the handler nothing\<close>

text \<open>
  \<open>reads_fail\<close>: \<^verbatim>\<open>list_projects\<close> gets no answer from the store. The handle is absent, or
  the query of line 119 raises, or it returns no record and the query of line 127,
  made after one \<^verbatim>\<open>create_document\<close> per Sample Dataset entry, raises.
\<close>

definition reads_fail :: "'s env \<Rightarrow> int option \<Rightarrow> 's \<Rightarrow> bool" where
  "reads_fail E limit s \<longleftrightarrow>
     \<not> db E \<or>
     (case get_documents E s ''project'' [] (limit_or_50 limit) of
        (Inl e, s1) \<Rightarrow> True
      | (Inr docs, s1) \<Rightarrow>
          docs = [] \<and>
          isl (fst (get_documents E
                 (foldl (\<lambda>s p. snd (create_document E s ''project'' p)) s1 SAMPLE_PROJECTS)
                 ''project'' [] (limit_or_50 limit))))"

text \<open>
  \<open>lookup_misses\<close>: \<^verbatim>\<open>get_project\<close> gets no record for the slug from the store. The
  handle is absent, or the query of line 144 raises, or it returns no record.
\<close>

definition lookup_misses :: "'s env \<Rightarrow> string \<Rightarrow> 's \<Rightarrow> bool" where
  "lookup_misses E slug s \<longleftrightarrow>
     \<not> db E \<or>
     (case fst (get_documents E s ''project'' [(''slug'', PStr slug)] 1) of
        Inl e \<Rightarrow> True
      | Inr docs \<Rightarrow> docs = [])"

subsection \<open>A store to run the handlers on\<close>

text \<open>
  An in-memory document store for the examples: the documents in insertion order, each
  with its collection. A query returns the documents of the collection that carry
  every item of the filter, at most \<open>n\<close> of them; an insert stores the document with a
  fresh \<^verbatim>\<open>_id\<close> and returns that identifier as a string. The flags switch the handle,
  the reads and the writes off, so that every failure the handlers guard against can be
  exercised. \<open>str_of_id\<close> is \<^verbatim>\<open>str\<close> on identifiers: an \<^verbatim>\<open>ObjectId\<close> prints as
  its digits and a string as itself. This store has no identifier of another kind, and
  \<open>str_of_id\<close> is not \<^verbatim>\<open>str\<close> there; the properties below hold for every function
  in the place of \<open>py_str\<close>. \<open>message_fields\<close> is a schema that accepts every payload
  and lists its three fields.
\<close>

type_synonym mem = "(string \<times> pydict) list"

fun str_of_id :: "pyval \<Rightarrow> string" where
  "str_of_id (PObjectId h) = h"
| "str_of_id (PStr s) = s"
| "str_of_id v = []"

definition mem_get_documents ::
  "bool \<Rightarrow> mem \<Rightarrow> string \<Rightarrow> pydict \<Rightarrow> int \<Rightarrow> (exn + pydict list) \<times> mem" where
  "mem_get_documents ok s coll flt n =
     (if ok then
        (Inr (take (nat n)
           (filter (\<lambda>d. list_all (\<lambda>kv. map_of d (fst kv) = Some (snd kv)) flt)
              (map snd (filter (\<lambda>cd. fst cd = coll) s)))), s)
      else (Inl (Exception ''read failed''), s))"

definition mem_create_document ::
  "bool \<Rightarrow> mem \<Rightarrow> string \<Rightarrow> pydict \<Rightarrow> (exn + string) \<times> mem" where
  "mem_create_document ok s coll d =
     (if ok then
        (Inr (replicate (Suc (length s)) (CHR ''a'')),
         s @ [(coll, d @ [(''_id'', PObjectId (replicate (Suc (length s)) (CHR ''a'')))])])
      else (Inl (Exception ''write failed''), s))"

definition message_fields :: "string \<Rightarrow> string \<Rightarrow> string \<Rightarrow> exn + pydict" where
  "message_fields n e m = Inr [(''name'', PStr n), (''email'', PStr e), (''message'', PStr m)]"

definition mem_env :: "bool \<Rightarrow> bool \<Rightarrow> bool \<Rightarrow> mem env" where
  "mem_env present reads writes =
     \<lparr> db = present,
       get_documents = mem_get_documents reads,
       create_document = mem_create_document writes,
       MessageSchema = message_fields,
       py_str = str_of_id \<rparr>"

text \<open>
  A record as the store keeps it, with its internal identifier, and a sequence of
  requests, for the examples.
\<close>

definition stored_project :: pydict where
  "stored_project = [(''slug'', PStr ''x''), (''_id'', PObjectId ''abc'')]"

definition example_requests :: "request list" where
  "example_requests =
     [ ListProjects None,
       GetProject ''realtime-product-configurator'',
       SubmitContact \<lparr>name = ''A'', email = ''a@b.com'', message = ''hi''\<rparr>,
       ListProjects (Some 2) ]"

section \<open>Properties\<close>

subsection \<open>The heap and the store calls\<close>


lemma expose_ids_heap:
  "heap st = pre @ docs \<Longrightarrow>
     expose_ids E [length pre ..< length pre + length docs] st
       = st\<lparr>heap := pre @ map (rename_id (py_str E)) docs\<rparr>"
proof (induction docs arbitrary: pre st)
  case Nil
  then show ?case by simp
next
  case (Cons d ds)
  let ?d' = "rename_id (py_str E) d"
  let ?st' = "st\<lparr>heap := (heap st)[length pre := rename_id (py_str E) (heap st ! length pre)]\<rparr>"
  have upt: "[length pre ..< length pre + length (d # ds)]
          = length pre # [length (pre @ [?d']) ..< length (pre @ [?d']) + length ds]"
    by (simp add: upt_conv_Cons del: upt_Suc)
  have h': "heap ?st' = (pre @ [?d']) @ ds"
    using Cons.prems by simp
  have "expose_ids E [length pre ..< length pre + length (d # ds)] st
          = expose_ids E [length (pre @ [?d']) ..< length (pre @ [?d']) + length ds] ?st'"
    by (simp only: upt expose_ids.simps)
  also have "\<dots> = ?st'\<lparr>heap := (pre @ [?d']) @ map (rename_id (py_str E)) ds\<rparr>"
    by (rule Cons.IH [OF h'])
  also have "\<dots> = st\<lparr>heap := pre @ map (rename_id (py_str E)) (d # ds)\<rparr>"
    by simp
  finally show ?case .
qed

lemma expose_ids_fresh:
  "expose_ids E [length (heap st) ..< length (heap st) + length docs]
       (st\<lparr>heap := heap st @ docs, store := s\<rparr>)
     = st\<lparr>heap := heap st @ map (rename_id (py_str E)) docs, store := s\<rparr>"
  using expose_ids_heap [of "st\<lparr>heap := heap st @ docs, store := s\<rparr>" "heap st" docs E]
  by simp

lemma nth_fresh:
  "map (\<lambda>r. (pre @ xs) ! r) [length pre ..< length pre + length xs] = xs"
proof (induction xs arbitrary: pre)
  case Nil
  then show ?case by simp
next
  case (Cons x xs)
  have "[length pre ..< length pre + length (x # xs)]
          = length pre # [length (pre @ [x]) ..< length (pre @ [x]) + length xs]"
    by (simp add: upt_conv_Cons del: upt_Suc)
  then show ?case
    using Cons.IH [of "pre @ [x]"] by simp
qed

lemma seed_eq:
  "seed E ps st =
     st\<lparr>store := foldl (\<lambda>s d. snd (create_document E s ''project'' d)) (store st) (deref st ps)\<rparr>"
  by (induction ps arbitrary: st)
     (auto simp: call_create_document_def deref_def split: prod.splits sum.splits)

lemma call_get_documents_raise:
  "get_documents E (store st) c f n = (Inl e, s') \<Longrightarrow>
     call_get_documents E c f n st = (Inl e, st\<lparr>store := s'\<rparr>)"
  by (simp add: call_get_documents_def)

lemma call_get_documents_return:
  "get_documents E (store st) c f n = (Inr docs, s') \<Longrightarrow>
     call_get_documents E c f n st =
       (Inr [length (heap st) ..< length (heap st) + length docs],
        st\<lparr>heap := heap st @ docs, store := s'\<rparr>)"
  by (simp add: call_get_documents_def)

lemma try_absent: "\<not> db E \<Longrightarrow> list_projects_try E limit st = (None, st)"
  by (simp add: list_projects_try_def)

lemma try_read_raises:
  "db E \<Longrightarrow> get_documents E (store st) ''project'' [] (limit_or_50 limit) = (Inl e, s1) \<Longrightarrow>
     list_projects_try E limit st = (None, st\<lparr>store := s1\<rparr>)"
  by (simp add: list_projects_try_def call_get_documents_raise)

lemma try_records:
  "db E \<Longrightarrow> get_documents E (store st) ''project'' [] (limit_or_50 limit) = (Inr docs, s1) \<Longrightarrow>
     docs \<noteq> [] \<Longrightarrow>
     list_projects_try E limit st =
       (Some [length (heap st) ..< length (heap st) + length docs],
        st\<lparr>heap := heap st @ map (rename_id (py_str E)) docs, store := s1\<rparr>)"
  by (simp add: list_projects_try_def call_get_documents_return expose_ids_fresh)

lemma try_seed_reread_raises:
  "db E \<Longrightarrow> get_documents E (store st) ''project'' [] (limit_or_50 limit) = (Inr [], s1) \<Longrightarrow>
     get_documents E
        (foldl (\<lambda>s d. snd (create_document E s ''project'' d)) s1 (deref st (sample_projects st)))
        ''project'' [] (limit_or_50 limit) = (Inl e, s3) \<Longrightarrow>
     list_projects_try E limit st = (None, st\<lparr>store := s3\<rparr>)"
  by (simp add: list_projects_try_def call_get_documents_return seed_eq deref_def
        call_get_documents_raise)

lemma try_seed_reread_records:
  "db E \<Longrightarrow> get_documents E (store st) ''project'' [] (limit_or_50 limit) = (Inr [], s1) \<Longrightarrow>
     get_documents E
        (foldl (\<lambda>s d. snd (create_document E s ''project'' d)) s1 (deref st (sample_projects st)))
        ''project'' [] (limit_or_50 limit) = (Inr docs, s3) \<Longrightarrow>
     list_projects_try E limit st =
       (Some [length (heap st) ..< length (heap st) + length docs],
        st\<lparr>heap := heap st @ map (rename_id (py_str E)) docs, store := s3\<rparr>)"
  by (simp add: list_projects_try_def call_get_documents_return seed_eq deref_def
        expose_ids_fresh)

lemma deref_fresh:
  "deref (st\<lparr>heap := heap st @ xs, store := s\<rparr>) [length (heap st) ..< length (heap st) + length xs] = xs"
  by (simp add: deref_def nth_fresh)

lemma deref_append:
  "list_all (\<lambda>r. r < length (heap st)) rs \<Longrightarrow>
     deref (st\<lparr>heap := heap st @ xs, store := s\<rparr>) rs = deref st rs"
  by (simp add: deref_def nth_append list_all_iff)

lemma sample_intact_append:
  "sample_intact st \<Longrightarrow> sample_intact (st\<lparr>heap := heap st @ xs, store := s\<rparr>)"
  by (auto simp: sample_intact_def deref_append list_all_iff)

lemma sample_intact_store:
  "sample_intact st \<Longrightarrow> sample_intact (st\<lparr>store := s\<rparr>)"
  by (simp add: sample_intact_def deref_def)

lemma list_projects_try_state:
  "\<exists>xs s'. snd (list_projects_try E limit st) = st\<lparr>heap := heap st @ xs, store := s'\<rparr>"
proof (cases "db E")
  case False
  then have "snd (list_projects_try E limit st) = st\<lparr>heap := heap st @ [], store := store st\<rparr>"
    by (simp add: try_absent)
  then show ?thesis by blast
next
  case True
  obtain r1 s1 where g1: "get_documents E (store st) ''project'' [] (limit_or_50 limit) = (r1, s1)"
    by (cases "get_documents E (store st) ''project'' [] (limit_or_50 limit)")
  show ?thesis
  proof (cases r1)
    case (Inl e)
    with True g1 have "snd (list_projects_try E limit st) = st\<lparr>heap := heap st @ [], store := s1\<rparr>"
      by (simp add: try_read_raises)
    then show ?thesis by blast
  next
    case (Inr docs)
    show ?thesis
    proof (cases "docs = []")
      case False
      with True g1 Inr show ?thesis by (auto simp: try_records)
    next
      case empty: True
      obtain r3 s3 where g3: "get_documents E
          (foldl (\<lambda>s d. snd (create_document E s ''project'' d)) s1 (deref st (sample_projects st)))
          ''project'' [] (limit_or_50 limit) = (r3, s3)"
        by (cases "get_documents E
          (foldl (\<lambda>s d. snd (create_document E s ''project'' d)) s1 (deref st (sample_projects st)))
          ''project'' [] (limit_or_50 limit)")
      show ?thesis
      proof (cases r3)
        case (Inl e)
        with True g1 Inr empty g3
        have "snd (list_projects_try E limit st) = st\<lparr>heap := heap st @ [], store := s3\<rparr>"
          by (simp add: try_seed_reread_raises)
        then show ?thesis by blast
      next
        case docs': (Inr docs')
        with True g1 Inr empty g3 show ?thesis by (auto simp: try_seed_reread_records)
      qed
    qed
  qed
qed

lemma list_projects_state:
  "\<exists>xs s'. snd (list_projects E limit st) = st\<lparr>heap := heap st @ xs, store := s'\<rparr>"
  using list_projects_try_state [of E limit st]
  by (cases "list_projects_try E limit st"; cases "fst (list_projects_try E limit st)")
     (simp_all add: list_projects_def)


lemma sample_intact_module_load: "sample_intact (module_load s)"
  by (simp add: sample_intact_def module_load_def deref_def map_nth list_all_iff)

lemma deref_sample_fallback:
  "deref st (sample_fallback limit rs) = sample_fallback limit (deref st rs)"
  by (simp add: deref_def sample_fallback_def slice_to_def take_map split: option.splits)

lemma list_projects_store_response:
  assumes "list_projects_try E limit st =
             (Some [length (heap st) ..< length (heap st) + length docs],
              st\<lparr>heap := heap st @ map (rename_id (py_str E)) docs, store := s\<rparr>)"
  shows "response_projects (list_projects E limit st) = Inr (map (rename_id (py_str E)) docs)"
  using assms deref_fresh [where st = st and xs = "map (rename_id (py_str E)) docs" and s = s]
  by (simp add: response_projects_def list_projects_def)

lemma list_projects_fallback_response:
  assumes "sample_intact st" and "fst (list_projects_try E limit st) = None"
  shows "response_projects (list_projects E limit st) = Inr (sample_fallback limit SAMPLE_PROJECTS)"
proof -
  obtain xs s' where st': "snd (list_projects_try E limit st) = st\<lparr>heap := heap st @ xs, store := s'\<rparr>"
    using list_projects_try_state [of E limit st] by blast
  have "sample_intact (st\<lparr>heap := heap st @ xs, store := s'\<rparr>)"
    using assms(1) by (rule sample_intact_append)
  then have d: "deref (st\<lparr>heap := heap st @ xs, store := s'\<rparr>)
                  (sample_projects (st\<lparr>heap := heap st @ xs, store := s'\<rparr>)) = SAMPLE_PROJECTS"
    by (simp only: sample_intact_def)
  have "list_projects_try E limit st = (None, st\<lparr>heap := heap st @ xs, store := s'\<rparr>)"
    using assms(2) st' by (cases "list_projects_try E limit st") simp
  then show ?thesis
    using d by (simp add: response_projects_def list_projects_def deref_sample_fallback)
qed

lemma try_None_iff:
  assumes "sample_intact st"
  shows "fst (list_projects_try E limit st) = None \<longleftrightarrow> reads_fail E limit (store st)"
proof (cases "db E")
  case False
  then show ?thesis by (simp add: try_absent reads_fail_def)
next
  case True
  have samples: "deref st (sample_projects st) = SAMPLE_PROJECTS"
    using assms by (simp add: sample_intact_def)
  obtain r1 s1 where g1: "get_documents E (store st) ''project'' [] (limit_or_50 limit) = (r1, s1)"
    by (cases "get_documents E (store st) ''project'' [] (limit_or_50 limit)")
  show ?thesis
  proof (cases r1)
    case (Inl e)
    with True g1 show ?thesis by (simp add: try_read_raises reads_fail_def)
  next
    case (Inr docs)
    show ?thesis
    proof (cases "docs = []")
      case False
      with True g1 Inr show ?thesis by (simp add: try_records reads_fail_def)
    next
      case empty: True
      obtain r3 s3 where g3: "get_documents E
          (foldl (\<lambda>s d. snd (create_document E s ''project'' d)) s1 SAMPLE_PROJECTS)
          ''project'' [] (limit_or_50 limit) = (r3, s3)"
        by (cases "get_documents E
          (foldl (\<lambda>s d. snd (create_document E s ''project'' d)) s1 SAMPLE_PROJECTS)
          ''project'' [] (limit_or_50 limit)")
      show ?thesis
      proof (cases r3)
        case (Inl e)
        with True g1 Inr empty g3 samples show ?thesis
          by (simp add: try_seed_reread_raises reads_fail_def)
      next
        case docs': (Inr docs')
        with True g1 Inr empty g3 samples show ?thesis
          by (simp add: try_seed_reread_records reads_fail_def)
      qed
    qed
  qed
qed

subsection \<open>The lookup by slug and the contact handler\<close>


lemma get_project_try_absent: "\<not> db E \<Longrightarrow> get_project_try E slug st = (None, st)"
  by (simp add: get_project_try_def)

lemma get_project_try_raises:
  "db E \<Longrightarrow> get_documents E (store st) ''project'' [(''slug'', PStr slug)] 1 = (Inl e, s1) \<Longrightarrow>
     get_project_try E slug st = (None, st\<lparr>store := s1\<rparr>)"
  by (simp add: get_project_try_def call_get_documents_raise)

lemma get_project_try_empty:
  "db E \<Longrightarrow> get_documents E (store st) ''project'' [(''slug'', PStr slug)] 1 = (Inr [], s1) \<Longrightarrow>
     get_project_try E slug st = (None, st\<lparr>store := s1\<rparr>)"
  by (simp add: get_project_try_def call_get_documents_return)

lemma get_project_try_record:
  "db E \<Longrightarrow> get_documents E (store st) ''project'' [(''slug'', PStr slug)] 1 = (Inr (d # ds), s1) \<Longrightarrow>
     get_project_try E slug st =
       (Some (length (heap st)),
        st\<lparr>heap := heap st @ rename_id (py_str E) d # ds, store := s1\<rparr>)"
  by (simp add: get_project_try_def call_get_documents_return upt_conv_Cons del: upt_Suc)

lemma get_project_try_state:
  "\<exists>xs s'. snd (get_project_try E slug st) = st\<lparr>heap := heap st @ xs, store := s'\<rparr>"
proof (cases "db E")
  case False
  then have "snd (get_project_try E slug st) = st\<lparr>heap := heap st @ [], store := store st\<rparr>"
    by (simp add: get_project_try_absent)
  then show ?thesis by blast
next
  case True
  obtain r1 s1 where g1: "get_documents E (store st) ''project'' [(''slug'', PStr slug)] 1 = (r1, s1)"
    by (cases "get_documents E (store st) ''project'' [(''slug'', PStr slug)] 1")
  show ?thesis
  proof (cases r1)
    case (Inl e)
    with True g1 have "snd (get_project_try E slug st) = st\<lparr>heap := heap st @ [], store := s1\<rparr>"
      by (simp add: get_project_try_raises)
    then show ?thesis by blast
  next
    case (Inr docs)
    show ?thesis
    proof (cases docs)
      case Nil
      with True g1 Inr have "snd (get_project_try E slug st) = st\<lparr>heap := heap st @ [], store := s1\<rparr>"
        by (simp add: get_project_try_empty)
      then show ?thesis by blast
    next
      case (Cons d ds)
      with True g1 Inr show ?thesis by (auto simp: get_project_try_record)
    qed
  qed
qed

lemma get_project_try_None_iff:
  "fst (get_project_try E slug st) = None \<longleftrightarrow> lookup_misses E slug (store st)"
proof (cases "db E")
  case False
  then show ?thesis by (simp add: get_project_try_absent lookup_misses_def)
next
  case True
  obtain r1 s1 where g1: "get_documents E (store st) ''project'' [(''slug'', PStr slug)] 1 = (r1, s1)"
    by (cases "get_documents E (store st) ''project'' [(''slug'', PStr slug)] 1")
  show ?thesis
  proof (cases r1)
    case (Inl e)
    with True g1 show ?thesis by (simp add: get_project_try_raises lookup_misses_def)
  next
    case (Inr docs)
    with True g1 show ?thesis
      by (cases docs) (simp_all add: get_project_try_empty get_project_try_record lookup_misses_def)
  qed
qed

lemma get_project_state:
  "\<exists>xs s'. snd (get_project E slug st) = st\<lparr>heap := heap st @ xs, store := s'\<rparr>"
  using get_project_try_state [of E slug st]
  by (cases "get_project_try E slug st"; cases "fst (get_project_try E slug st)")
     (simp_all add: get_project_def)

lemma submit_contact_state:
  "\<exists>xs s'. snd (submit_contact E payload st) = st\<lparr>heap := heap st @ xs, store := s'\<rparr>"
proof -
  have "snd (submit_contact E payload st) = st\<lparr>heap := heap st @ [], store := store (snd (submit_contact E payload st))\<rparr>"
    by (simp add: submit_contact_def split: sum.splits prod.splits)
  then show ?thesis by blast
qed

lemma scan_samples_find:
  "list_all (\<lambda>r. map_of (h ! r) ''slug'' \<noteq> None) rs \<Longrightarrow>
   (case scan_samples h slug rs of Inl e \<Rightarrow> Inl e | Inr r \<Rightarrow> Inr (h ! r)) =
   (case find (\<lambda>p. map_of p ''slug'' = Some (PStr slug)) (map (\<lambda>r. h ! r) rs) of
      None \<Rightarrow> Inl (HTTPException 404 ''Project not found'')
    | Some p \<Rightarrow> Inr p)"
  by (induction rs) auto

lemma samples_have_slug: "list_all (\<lambda>p. map_of p ''slug'' \<noteq> None) SAMPLE_PROJECTS"
  by (simp add: SAMPLE_PROJECTS_def)

lemma get_project_fallback_response:
  assumes "sample_intact st" and "lookup_misses E slug (store st)"
  shows "response_project (get_project E slug st) =
           (case find (\<lambda>p. map_of p ''slug'' = Some (PStr slug)) SAMPLE_PROJECTS of
              None \<Rightarrow> Inl (HTTPException 404 ''Project not found'')
            | Some p \<Rightarrow> Inr p)"
proof -
  obtain xs s' where st': "snd (get_project_try E slug st) = st\<lparr>heap := heap st @ xs, store := s'\<rparr>"
    using get_project_try_state [of E slug st] by blast
  let ?st' = "st\<lparr>heap := heap st @ xs, store := s'\<rparr>"
  have "sample_intact ?st'"
    using assms(1) by (rule sample_intact_append)
  then have d: "map (\<lambda>r. heap ?st' ! r) (sample_projects ?st') = SAMPLE_PROJECTS"
    by (simp only: sample_intact_def deref_def)
  have "list_all (\<lambda>p. map_of p ''slug'' \<noteq> None) (map (\<lambda>r. heap ?st' ! r) (sample_projects ?st'))"
    by (simp only: d samples_have_slug)
  then have slugs: "list_all (\<lambda>r. map_of (heap ?st' ! r) ''slug'' \<noteq> None) (sample_projects ?st')"
    by (simp add: list_all_iff)
  have "fst (get_project_try E slug st) = None"
    using assms(2) by (simp add: get_project_try_None_iff)
  then have "get_project_try E slug st = (None, ?st')"
    using st' by (cases "get_project_try E slug st") simp
  then have "response_project (get_project E slug st) =
      (case scan_samples (heap ?st') slug (sample_projects ?st') of
         Inl e \<Rightarrow> Inl e | Inr r \<Rightarrow> Inr (heap ?st' ! r))"
    by (simp add: response_project_def get_project_def split: sum.splits)
  also have "\<dots> = (case find (\<lambda>p. map_of p ''slug'' = Some (PStr slug))
                        (map (\<lambda>r. heap ?st' ! r) (sample_projects ?st')) of
      None \<Rightarrow> Inl (HTTPException 404 ''Project not found'')
    | Some p \<Rightarrow> Inr p)"
    by (rule scan_samples_find [OF slugs])
  finally show ?thesis
    by (simp only: d)
qed

subsection \<open>Records that come from the store\<close>

lemma rename_id_hides: "map_of (rename_id f d) ''_id'' = None"
  by (simp add: rename_id_def update_conv' delete_conv' split: option.splits)

lemma rename_id_exposes:
  "map_of d ''_id'' = Some v \<Longrightarrow> map_of (rename_id f d) ''id'' = Some (PStr (f v))"
  by (simp add: rename_id_def update_conv')

lemma rename_id_absent: "map_of d ''_id'' = None \<Longrightarrow> rename_id f d = d"
  by (simp add: rename_id_def)

lemma list_projects_store_records:
  assumes "fst (list_projects_try E limit st) = Some rs"
  shows "\<exists>docs s s'. get_documents E s ''project'' [] (limit_or_50 limit) = (Inr docs, s')
           \<and> response_projects (list_projects E limit st) = Inr (map (rename_id (py_str E)) docs)"
proof (cases "db E")
  case False
  with assms show ?thesis by (simp add: try_absent)
next
  case True
  obtain r1 s1 where g1: "get_documents E (store st) ''project'' [] (limit_or_50 limit) = (r1, s1)"
    by (cases "get_documents E (store st) ''project'' [] (limit_or_50 limit)")
  show ?thesis
  proof (cases r1)
    case (Inl e)
    with True g1 assms show ?thesis by (simp add: try_read_raises)
  next
    case (Inr docs)
    show ?thesis
    proof (cases "docs = []")
      case False
      with True g1 Inr have "response_projects (list_projects E limit st)
          = Inr (map (rename_id (py_str E)) docs)"
        by (simp add: list_projects_store_response try_records)
      with g1 Inr show ?thesis by blast
    next
      case empty: True
      obtain r3 s3 where g3: "get_documents E
          (foldl (\<lambda>s d. snd (create_document E s ''project'' d)) s1 (deref st (sample_projects st)))
          ''project'' [] (limit_or_50 limit) = (r3, s3)"
        by (cases "get_documents E
          (foldl (\<lambda>s d. snd (create_document E s ''project'' d)) s1 (deref st (sample_projects st)))
          ''project'' [] (limit_or_50 limit)")
      show ?thesis
      proof (cases r3)
        case (Inl e)
        with True g1 Inr empty g3 assms show ?thesis
          by (simp add: try_seed_reread_raises)
      next
        case docs': (Inr docs')
        with True g1 Inr empty g3 have "response_projects (list_projects E limit st)
            = Inr (map (rename_id (py_str E)) docs')"
          by (simp add: list_projects_store_response try_seed_reread_records)
        with g3 docs' show ?thesis by blast
      qed
    qed
  qed
qed

lemma get_project_store_record:
  assumes "fst (get_project_try E slug st) = Some r"
  shows "\<exists>d ds s s'. get_documents E s ''project'' [(''slug'', PStr slug)] 1 = (Inr (d # ds), s')
           \<and> response_project (get_project E slug st) = Inr (rename_id (py_str E) d)"
proof (cases "db E")
  case False
  with assms show ?thesis by (simp add: get_project_try_absent)
next
  case True
  obtain r1 s1 where g1: "get_documents E (store st) ''project'' [(''slug'', PStr slug)] 1 = (r1, s1)"
    by (cases "get_documents E (store st) ''project'' [(''slug'', PStr slug)] 1")
  show ?thesis
  proof (cases r1)
    case (Inl e)
    with True g1 assms show ?thesis by (simp add: get_project_try_raises)
  next
    case (Inr docs)
    show ?thesis
    proof (cases docs)
      case Nil
      with True g1 Inr assms show ?thesis by (simp add: get_project_try_empty)
    next
      case (Cons d ds)
      with True g1 Inr have "response_project (get_project E slug st) = Inr (rename_id (py_str E) d)"
        by (simp add: get_project_try_record response_project_def get_project_def)
      with g1 Inr Cons show ?thesis by blast
    qed
  qed
qed

subsection \<open>The Sample Dataset across requests\<close>

lemma handle_state:
  "\<exists>xs s'. handle E r st = st\<lparr>heap := heap st @ xs, store := s'\<rparr>"
  by (cases r) (simp_all add: list_projects_state get_project_state submit_contact_state)

lemma handle_intact:
  assumes "sample_intact st"
  shows "sample_intact (handle E r st) \<and> sample_projects (handle E r st) = sample_projects st"
proof -
  obtain xs s' where "handle E r st = st\<lparr>heap := heap st @ xs, store := s'\<rparr>"
    using handle_state [of E r st] by blast
  then show ?thesis
    using sample_intact_append [OF assms, where xs = xs and s = s'] by simp
qed

lemma serve_intact:
  "sample_intact st \<Longrightarrow>
     sample_intact (serve E reqs st) \<and> sample_projects (serve E reqs st) = sample_projects st"
proof (induction reqs arbitrary: st)
  case Nil
  then show ?case by simp
next
  case (Cons r reqs)
  have "sample_intact (handle E r st)" and "sample_projects (handle E r st) = sample_projects st"
    using handle_intact [OF Cons.prems] by simp_all
  then show ?case
    using Cons.IH [of "handle E r st"] by simp
qed

lemma samples_no_id:
  "list_all (\<lambda>p. map_of p ''id'' = None \<and> map_of p ''_id'' = None) SAMPLE_PROJECTS"
  by (simp add: SAMPLE_PROJECTS_def)

lemma set_sample_fallback: "set (sample_fallback limit xs) \<subseteq> set xs"
  by (auto simp: sample_fallback_def slice_to_def split: option.splits dest: in_set_takeD)

subsection \<open>The calls made while seeding\<close>

lemma logged_foldl:
  "foldl (\<lambda>s d. snd (create_document (logged E) s ''project'' d)) (s, l) ds =
     (foldl (\<lambda>s d. snd (create_document E s ''project'' d)) s ds,
      l @ map (CreateDocument ''project'') ds)"
  by (induction ds arbitrary: s l) (simp_all add: logged_def split: prod.splits)

lemma logged_get_documents:
  "get_documents (logged E) (s, l) coll flt n =
     (fst (get_documents E s coll flt n),
      (snd (get_documents E s coll flt n), l @ [GetDocuments coll flt n]))"
  by (simp add: logged_def split: prod.splits)

lemma list_projects_seed_store:
  assumes "db E"
    and "get_documents E (store st) ''project'' [] (limit_or_50 limit) = (Inr [], s1)"
  shows "store (snd (list_projects E limit st)) =
           snd (get_documents E
                  (foldl (\<lambda>s d. snd (create_document E s ''project'' d)) s1
                     (deref st (sample_projects st)))
                  ''project'' [] (limit_or_50 limit))"
proof -
  obtain r3 s3 where g3: "get_documents E
      (foldl (\<lambda>s d. snd (create_document E s ''project'' d)) s1 (deref st (sample_projects st)))
      ''project'' [] (limit_or_50 limit) = (r3, s3)"
    by (cases "get_documents E
      (foldl (\<lambda>s d. snd (create_document E s ''project'' d)) s1 (deref st (sample_projects st)))
      ''project'' [] (limit_or_50 limit)")
  show ?thesis
  proof (cases r3)
    case (Inl e)
    with assms g3 show ?thesis
      by (simp add: list_projects_def try_seed_reread_raises)
  next
    case (Inr docs)
    with assms g3 show ?thesis
      by (simp add: list_projects_def try_seed_reread_records)
  qed
qed

section \<open>The claims\<close>

subsection \<open>C1: seeding an empty store\<close>

text \<open>
  Claim C1. When the store handle is present and the first query for project records
  returns no record, \<^verbatim>\<open>list_projects\<close> calls \<^verbatim>\<open>create_document\<close> exactly once for
  each Sample Dataset entry, in order and whatever each call returns or raises, then
  queries again, and returns the records of that second query (their identifiers
  renamed). The calls are read off the recording store; the store state in which the
  second query runs is the one left by the three writes. If the second query raises,
  the handler returns the fallback instead.
\<close>

theorem list_projects_seeds_empty_store:
  assumes "db E" and "sample_intact st"
    and "get_documents E (store st) ''project'' [] (limit_or_50 limit) = (Inr [], s1)"
  shows "snd (store (snd (list_projects (logged E) limit (with_log st)))) =
           GetDocuments ''project'' [] (limit_or_50 limit) #
           map (CreateDocument ''project'') SAMPLE_PROJECTS @
           [GetDocuments ''project'' [] (limit_or_50 limit)]
       \<and> (case get_documents E
                 (foldl (\<lambda>s p. snd (create_document E s ''project'' p)) s1 SAMPLE_PROJECTS)
                 ''project'' [] (limit_or_50 limit) of
            (Inl e, s3) \<Rightarrow>
              response_projects (list_projects E limit st) = Inr (sample_fallback limit SAMPLE_PROJECTS)
              \<and> store (snd (list_projects E limit st)) = s3
          | (Inr docs, s3) \<Rightarrow>
              response_projects (list_projects E limit st) = Inr (map (rename_id (py_str E)) docs)
              \<and> store (snd (list_projects E limit st)) = s3)"
proof -
  have samples: "deref st (sample_projects st) = SAMPLE_PROJECTS"
    using assms(2) by (simp add: sample_intact_def)
  have "db (logged E)"
    using assms(1) by (simp add: logged_def)
  moreover have "get_documents (logged E) (store (with_log st)) ''project'' [] (limit_or_50 limit)
      = (Inr [], (s1, [GetDocuments ''project'' [] (limit_or_50 limit)]))"
    using assms(3) by (simp add: logged_get_documents with_log_def)
  moreover have "deref (with_log st) (sample_projects (with_log st)) = SAMPLE_PROJECTS"
    using samples by (simp add: deref_def with_log_def)
  ultimately have "store (snd (list_projects (logged E) limit (with_log st))) =
      snd (get_documents (logged E)
             (foldl (\<lambda>s d. snd (create_document (logged E) s ''project'' d))
                (s1, [GetDocuments ''project'' [] (limit_or_50 limit)]) SAMPLE_PROJECTS)
             ''project'' [] (limit_or_50 limit))"
    using list_projects_seed_store [of "logged E" "with_log st" limit
            "(s1, [GetDocuments ''project'' [] (limit_or_50 limit)])"]
    by simp
  then have calls: "snd (store (snd (list_projects (logged E) limit (with_log st)))) =
           GetDocuments ''project'' [] (limit_or_50 limit) #
           map (CreateDocument ''project'') SAMPLE_PROJECTS @
           [GetDocuments ''project'' [] (limit_or_50 limit)]"
    by (simp add: logged_foldl logged_get_documents)
  obtain r3 s3 where g3: "get_documents E
      (foldl (\<lambda>s p. snd (create_document E s ''project'' p)) s1 SAMPLE_PROJECTS)
      ''project'' [] (limit_or_50 limit) = (r3, s3)"
    by (cases "get_documents E
      (foldl (\<lambda>s p. snd (create_document E s ''project'' p)) s1 SAMPLE_PROJECTS)
      ''project'' [] (limit_or_50 limit)")
  have st3: "store (snd (list_projects E limit st)) = s3"
    using list_projects_seed_store [OF assms(1,3)] samples g3 by simp
  have answer: "(case r3 of
       Inl e \<Rightarrow> response_projects (list_projects E limit st) = Inr (sample_fallback limit SAMPLE_PROJECTS)
     | Inr docs \<Rightarrow> response_projects (list_projects E limit st) = Inr (map (rename_id (py_str E)) docs))"
  proof (cases r3)
    case (Inl e)
    then have "fst (list_projects_try E limit st) = None"
      using assms(1,3) g3 samples by (simp add: try_seed_reread_raises)
    then show ?thesis
      using Inl assms(2) by (simp add: list_projects_fallback_response)
  next
    case (Inr docs)
    then show ?thesis
      using assms(1,3) g3 samples
      by (simp add: list_projects_store_response try_seed_reread_records)
  qed
  show ?thesis
    using calls st3 answer g3 by (simp split: sum.splits)
qed

text \<open>
  The empty example store with its writes failing: every write is attempted, the
  second query is made, and its (empty) answer is returned.
\<close>

theorem list_projects_seeds_empty_store_witness:
  "db (mem_env True True False) \<and> sample_intact (module_load ([] :: mem))
   \<and> get_documents (mem_env True True False) (store (module_load ([] :: mem))) ''project'' []
        (limit_or_50 None) = (Inr [], [])
   \<and> fst (create_document (mem_env True True False) [] ''project'' (SAMPLE_PROJECTS ! 0))
        = Inl (Exception ''write failed'')
   \<and> snd (store (snd (list_projects (logged (mem_env True True False)) None
                        (with_log (module_load []))))) =
        [ GetDocuments ''project'' [] 50,
          CreateDocument ''project'' (SAMPLE_PROJECTS ! 0),
          CreateDocument ''project'' (SAMPLE_PROJECTS ! 1),
          CreateDocument ''project'' (SAMPLE_PROJECTS ! 2),
          GetDocuments ''project'' [] 50 ]
   \<and> response_projects (list_projects (mem_env True True False) None (module_load [])) = Inr []"
proof -
  let ?M = "mem_env True True False"
  let ?st = "module_load ([] :: mem)"
  have h1: "db ?M"
    by (simp add: mem_env_def)
  have h2: "sample_intact ?st"
    by (rule sample_intact_module_load)
  have h3: "get_documents ?M (store ?st) ''project'' [] (limit_or_50 None) = (Inr [], [])"
    by (simp add: mem_env_def mem_get_documents_def module_load_def)
  have w: "fst (create_document ?M [] ''project'' (SAMPLE_PROJECTS ! 0)) = Inl (Exception ''write failed'')"
    by (simp add: mem_env_def mem_create_document_def)
  have s: "SAMPLE_PROJECTS = [SAMPLE_PROJECTS ! 0, SAMPLE_PROJECTS ! 1, SAMPLE_PROJECTS ! 2]"
    by (simp add: SAMPLE_PROJECTS_def)
  have f: "foldl (\<lambda>s p. snd (create_document ?M s ''project'' p)) [] SAMPLE_PROJECTS = []"
    by (subst s) (simp add: mem_env_def mem_create_document_def)
  have g: "get_documents ?M [] ''project'' [] 50 = (Inr [], [])"
    by (simp add: mem_env_def mem_get_documents_def)
  have n: "limit_or_50 None = 50"
    by (simp add: limit_or_50_def)
  have m: "map (CreateDocument ''project'') SAMPLE_PROJECTS =
             [CreateDocument ''project'' (SAMPLE_PROJECTS ! 0),
              CreateDocument ''project'' (SAMPLE_PROJECTS ! 1),
              CreateDocument ''project'' (SAMPLE_PROJECTS ! 2)]"
    by (subst s) simp
  show ?thesis
    using list_projects_seeds_empty_store [OF h1 h2 h3] h1 h2 h3 w
    by (simp add: f g n m)
qed

subsection \<open>C2: no error reaches the caller of the listing\<close>

text \<open>
  Claim C2, as amended. \<^verbatim>\<open>list_projects\<close> never raises: for every input it returns a
  list. When the store handle is absent or a store read raises (the first query, or the
  query made after seeding an empty store), it returns the Sample Dataset: all of it
  for an absent limit, its first \<^verbatim>\<open>limit\<close> entries for a positive limit, and in
  general the value of line 136.
\<close>

theorem list_projects_never_raises:
  assumes "sample_intact st"
  shows "(\<exists>rs. fst (list_projects E limit st) = Inr rs)
       \<and> (reads_fail E limit (store st) \<longrightarrow>
            response_projects (list_projects E limit st) = Inr (sample_fallback limit SAMPLE_PROJECTS))
       \<and> sample_fallback None SAMPLE_PROJECTS = SAMPLE_PROJECTS
       \<and> (0 < n \<longrightarrow> sample_fallback (Some n) SAMPLE_PROJECTS = take (nat n) SAMPLE_PROJECTS)"
proof -
  have "\<exists>rs. fst (list_projects E limit st) = Inr rs"
    by (cases "list_projects_try E limit st"; cases "fst (list_projects_try E limit st)")
       (simp_all add: list_projects_def)
  moreover have "response_projects (list_projects E limit st) = Inr (sample_fallback limit SAMPLE_PROJECTS)"
    if "reads_fail E limit (store st)"
    using assms that by (simp add: list_projects_fallback_response try_None_iff)
  moreover have "sample_fallback None SAMPLE_PROJECTS = SAMPLE_PROJECTS"
    by (simp add: sample_fallback_def)
  moreover have "sample_fallback (Some n) SAMPLE_PROJECTS = take (nat n) SAMPLE_PROJECTS" if "0 < n"
    using that by (simp add: sample_fallback_def slice_to_def)
  ultimately show ?thesis by blast
qed

text \<open>A store whose reads raise, listed with \<^verbatim>\<open>limit=1\<close>.\<close>

theorem list_projects_never_raises_witness:
  "sample_intact (module_load ([] :: mem))
   \<and> reads_fail (mem_env True False True) (Some 1) (store (module_load ([] :: mem)))
   \<and> (0::int) < 1
   \<and> response_projects (list_projects (mem_env True False True) (Some 1) (module_load []))
        = Inr [SAMPLE_PROJECTS ! 0]
   \<and> (\<exists>rs. fst (list_projects (mem_env True False True) (Some 1) (module_load [])) = Inr rs)"
proof -
  let ?M = "mem_env True False True"
  let ?st = "module_load ([] :: mem)"
  have h1: "sample_intact ?st"
    by (rule sample_intact_module_load)
  have h2: "reads_fail ?M (Some 1) (store ?st)"
    by (simp add: reads_fail_def mem_env_def mem_get_documents_def)
  have t: "take (nat 1) SAMPLE_PROJECTS = [SAMPLE_PROJECTS ! 0]"
    by (simp add: SAMPLE_PROJECTS_def)
  show ?thesis
    using list_projects_never_raises [OF h1, of ?M "Some 1" 1] h1 h2 t by simp
qed

text \<open>
  The claim as first stated also promises the Sample Dataset when a seed write raises.
  Each seed write has its own \<^verbatim>\<open>try\<close>: against an empty store whose writes raise
  and whose reads succeed, the handler returns the answer of the second query, the
  empty list.
\<close>

theorem list_projects_seed_failure_counterexample:
  "isl (fst (create_document (mem_env True True False) [] ''project'' (SAMPLE_PROJECTS ! 0)))
   \<and> response_projects (list_projects (mem_env True True False) None (module_load ([] :: mem))) = Inr []
   \<and> response_projects (list_projects (mem_env True True False) None (module_load ([] :: mem)))
        \<noteq> Inr (sample_fallback None SAMPLE_PROJECTS)"
proof -
  have "response_projects (list_projects (mem_env True True False) None (module_load ([] :: mem))) = Inr []"
    by (simp add: response_projects_def list_projects_def list_projects_try_def mem_env_def
          call_get_documents_def mem_get_documents_def mem_create_document_def module_load_def
          limit_or_50_def call_create_document_def SAMPLE_PROJECTS_def deref_def)
  moreover have "sample_fallback None SAMPLE_PROJECTS \<noteq> []"
    by (simp add: sample_fallback_def SAMPLE_PROJECTS_def)
  moreover have "isl (fst (create_document (mem_env True True False) [] ''project'' (SAMPLE_PROJECTS ! 0)))"
    by (simp add: mem_env_def mem_create_document_def)
  ultimately show ?thesis by simp
qed

subsection \<open>C3: the prefix returned on the fallback path\<close>

text \<open>
  Claim C3, as amended. With the store handle absent, \<^verbatim>\<open>list_projects\<close> called with
  a limit \<open>N\<close> between 1 and the length of the Sample Dataset returns exactly the
  first \<open>N\<close> entries of the Sample Dataset, in their order.
\<close>

theorem list_projects_fallback_prefix:
  assumes "\<not> db E" and "sample_intact st" and "0 < N" and "N \<le> int (length SAMPLE_PROJECTS)"
  shows "response_projects (list_projects E (Some N) st) = Inr (take (nat N) SAMPLE_PROJECTS)
       \<and> length (take (nat N) SAMPLE_PROJECTS) = nat N"
proof -
  have "fst (list_projects_try E (Some N) st) = None"
    using assms(1) by (simp add: try_absent)
  then have "response_projects (list_projects E (Some N) st) = Inr (sample_fallback (Some N) SAMPLE_PROJECTS)"
    using assms(2) by (simp add: list_projects_fallback_response)
  moreover have "sample_fallback (Some N) SAMPLE_PROJECTS = take (nat N) SAMPLE_PROJECTS"
    using assms(3) by (simp add: sample_fallback_def slice_to_def)
  moreover have "length (take (nat N) SAMPLE_PROJECTS) = nat N"
    using assms(3,4) by simp
  ultimately show ?thesis by simp
qed

text \<open>The first two entries for \<^verbatim>\<open>limit=2\<close>.\<close>

theorem list_projects_fallback_prefix_witness:
  "\<not> db (mem_env False True True) \<and> sample_intact (module_load ([] :: mem))
   \<and> (0::int) < 2 \<and> (2::int) \<le> int (length SAMPLE_PROJECTS)
   \<and> response_projects (list_projects (mem_env False True True) (Some 2) (module_load []))
       = Inr [SAMPLE_PROJECTS ! 0, SAMPLE_PROJECTS ! 1]"
proof -
  have h1: "\<not> db (mem_env False True True)"
    by (simp add: mem_env_def)
  have h2: "sample_intact (module_load ([] :: mem))"
    by (rule sample_intact_module_load)
  have h3: "(0::int) < 2"
    by simp
  have h4: "(2::int) \<le> int (length SAMPLE_PROJECTS)"
    by (simp add: SAMPLE_PROJECTS_def)
  have "take (nat 2) SAMPLE_PROJECTS = [SAMPLE_PROJECTS ! 0, SAMPLE_PROJECTS ! 1]"
    by (simp add: SAMPLE_PROJECTS_def numeral_2_eq_2)
  then show ?thesis
    using list_projects_fallback_prefix [OF h1 h2 h3 h4] h1 h2 h4 by simp
qed

text \<open>
  The claim as first stated includes \<open>N = 0\<close>, where the first \<open>N\<close> entries are
  the empty list; the handler returns all three entries there.
\<close>

theorem list_projects_fallback_prefix_counterexample:
  "response_projects (list_projects (mem_env False True True) (Some 0) (module_load ([] :: mem)))
     \<noteq> Inr (take (nat 0) SAMPLE_PROJECTS)"
  by (simp add: response_projects_def list_projects_def list_projects_try_def mem_env_def
        sample_fallback_def module_load_def deref_def SAMPLE_PROJECTS_def)

subsection \<open>C4: an unknown slug\<close>

text \<open>
  Claim C4. For every slug that the store has no record for (the handle is absent, the
  query raises, or it returns no record) and that is the slug of no Sample Dataset
  entry, \<^verbatim>\<open>get_project\<close> raises \<^verbatim>\<open>HTTPException\<close> with status 404 and the detail
  \<^verbatim>\<open>"Project not found"\<close>.
\<close>

theorem get_project_unknown_slug:
  assumes "sample_intact st"
    and "lookup_misses E slug (store st)"
    and "\<forall>p \<in> set SAMPLE_PROJECTS. map_of p ''slug'' \<noteq> Some (PStr slug)"
  shows "fst (get_project E slug st) = Inl (HTTPException 404 ''Project not found'')"
proof -
  have "find (\<lambda>p. map_of p ''slug'' = Some (PStr slug)) SAMPLE_PROJECTS = None"
    using assms(3) by (simp add: find_None_iff)
  then have "response_project (get_project E slug st) = Inl (HTTPException 404 ''Project not found'')"
    using get_project_fallback_response [OF assms(1,2)] by simp
  then show ?thesis
    by (simp add: response_project_def split: sum.splits)
qed

text \<open>The slug \<^verbatim>\<open>"does-not-exist"\<close> against the empty example store.\<close>

theorem get_project_unknown_slug_witness:
  "sample_intact (module_load ([] :: mem))
   \<and> lookup_misses (mem_env True True True) ''does-not-exist'' (store (module_load ([] :: mem)))
   \<and> list_all (\<lambda>p. map_of p ''slug'' \<noteq> Some (PStr ''does-not-exist'')) SAMPLE_PROJECTS
   \<and> fst (get_project (mem_env True True True) ''does-not-exist'' (module_load []))
       = Inl (HTTPException 404 ''Project not found'')"
proof -
  have h1: "sample_intact (module_load ([] :: mem))"
    by (rule sample_intact_module_load)
  have h2: "lookup_misses (mem_env True True True) ''does-not-exist'' (store (module_load ([] :: mem)))"
    by (simp add: lookup_misses_def mem_env_def mem_get_documents_def module_load_def)
  have h3: "\<forall>p \<in> set SAMPLE_PROJECTS. map_of p ''slug'' \<noteq> Some (PStr ''does-not-exist'')"
    by (simp add: SAMPLE_PROJECTS_def)
  show ?thesis
    using get_project_unknown_slug [OF h1 h2 h3] h1 h2 h3 by (simp add: list_all_iff)
qed

subsection \<open>C5: the scan of the Sample Dataset\<close>

text \<open>
  Claim C5. For every slug, when the store has no record for it (the handle is absent,
  the query raises, or it returns no record), \<^verbatim>\<open>get_project\<close> returns the first
  Sample Dataset entry whose slug is exactly the given one, and raises the 404 when
  there is none; for the slug \<^verbatim>\<open>"immersive-brand-microsite"\<close> the record returned has
  the title \<^verbatim>\<open>"Immersive Brand Microsite"\<close>.
\<close>

theorem get_project_fallback_scan:
  assumes "sample_intact st" and "lookup_misses E slug (store st)"
  shows "response_project (get_project E slug st) =
           (case find (\<lambda>p. map_of p ''slug'' = Some (PStr slug)) SAMPLE_PROJECTS of
              None \<Rightarrow> Inl (HTTPException 404 ''Project not found'')
            | Some p \<Rightarrow> Inr p)
       \<and> (slug = ''immersive-brand-microsite'' \<longrightarrow>
            (\<exists>p. response_project (get_project E slug st) = Inr p
               \<and> map_of p ''title'' = Some (PStr ''Immersive Brand Microsite'')))"
proof -
  have scan: "response_project (get_project E slug st) =
           (case find (\<lambda>p. map_of p ''slug'' = Some (PStr slug)) SAMPLE_PROJECTS of
              None \<Rightarrow> Inl (HTTPException 404 ''Project not found'')
            | Some p \<Rightarrow> Inr p)"
    using assms by (rule get_project_fallback_response)
  have f: "find (\<lambda>p. map_of p ''slug'' = Some (PStr ''immersive-brand-microsite'')) SAMPLE_PROJECTS
          = Some (SAMPLE_PROJECTS ! 0)"
    by (simp add: SAMPLE_PROJECTS_def)
  have t: "map_of (SAMPLE_PROJECTS ! 0) ''title'' = Some (PStr ''Immersive Brand Microsite'')"
    by (simp add: SAMPLE_PROJECTS_def)
  show ?thesis
  proof (intro conjI impI)
    show "response_project (get_project E slug st) =
           (case find (\<lambda>p. map_of p ''slug'' = Some (PStr slug)) SAMPLE_PROJECTS of
              None \<Rightarrow> Inl (HTTPException 404 ''Project not found'')
            | Some p \<Rightarrow> Inr p)"
      by (rule scan)
  next
    assume "slug = ''immersive-brand-microsite''"
    then have "response_project (get_project E slug st) = Inr (SAMPLE_PROJECTS ! 0)"
      using scan f by simp
    then show "\<exists>p. response_project (get_project E slug st) = Inr p
               \<and> map_of p ''title'' = Some (PStr ''Immersive Brand Microsite'')"
      using t by blast
  qed
qed

text \<open>The lookup of \<^verbatim>\<open>"immersive-brand-microsite"\<close> with the handle absent.\<close>

theorem get_project_fallback_scan_witness:
  "sample_intact (module_load ([] :: mem))
   \<and> lookup_misses (mem_env False True True) ''immersive-brand-microsite'' (store (module_load ([] :: mem)))
   \<and> response_project (get_project (mem_env False True True) ''immersive-brand-microsite'' (module_load []))
       = Inr (SAMPLE_PROJECTS ! 0)
   \<and> map_of (SAMPLE_PROJECTS ! 0) ''title'' = Some (PStr ''Immersive Brand Microsite'')"
proof -
  have h1: "sample_intact (module_load ([] :: mem))"
    by (rule sample_intact_module_load)
  have h2: "lookup_misses (mem_env False True True) ''immersive-brand-microsite'' (store (module_load ([] :: mem)))"
    by (simp add: lookup_misses_def mem_env_def)
  have f: "find (\<lambda>p. map_of p ''slug'' = Some (PStr ''immersive-brand-microsite'')) SAMPLE_PROJECTS
          = Some (SAMPLE_PROJECTS ! 0)"
    by (simp add: SAMPLE_PROJECTS_def)
  have t: "map_of (SAMPLE_PROJECTS ! 0) ''title'' = Some (PStr ''Immersive Brand Microsite'')"
    by (simp add: SAMPLE_PROJECTS_def)
  show ?thesis
    using get_project_fallback_scan [OF h1 h2] h1 h2 f t by simp
qed

subsection \<open>C6: the contact submission\<close>

text \<open>
  Claim C6. For every contact payload that the message schema accepts,
  \<^verbatim>\<open>submit_contact\<close> returns status \<^verbatim>\<open>"ok"\<close> whatever the store does: with the
  identifier \<^verbatim>\<open>None\<close> when the handle is absent or \<^verbatim>\<open>create_document\<close> raises, and
  with the string that \<^verbatim>\<open>create_document\<close> returned when the write succeeds.
\<close>

theorem submit_contact_always_ok:
  assumes "MessageSchema E (name payload) (email payload) (message payload) = Inr msg"
  shows "fst (submit_contact E payload st) =
           Inr [(''status'', PStr ''ok''),
                (''id'', if db E
                         then (case fst (create_document E (store st) ''message'' msg) of
                                 Inl e \<Rightarrow> PNone
                               | Inr i \<Rightarrow> PStr i)
                         else PNone)]"
  using assms by (simp add: submit_contact_def split: prod.splits sum.splits)

text \<open>
  The payload \<^verbatim>\<open>{name: "A", email: "a@b.com", message: "hi"}\<close> against the example
  store: writing, failing to write, and with the handle absent.
\<close>

theorem submit_contact_always_ok_witness:
  "MessageSchema (mem_env True True True) ''A'' ''a@b.com'' ''hi''
      = Inr [(''name'', PStr ''A''), (''email'', PStr ''a@b.com''), (''message'', PStr ''hi'')]
   \<and> fst (submit_contact (mem_env True True True)
            \<lparr>name = ''A'', email = ''a@b.com'', message = ''hi''\<rparr> (module_load []))
       = Inr [(''status'', PStr ''ok''), (''id'', PStr ''a'')]
   \<and> fst (submit_contact (mem_env True True False)
            \<lparr>name = ''A'', email = ''a@b.com'', message = ''hi''\<rparr> (module_load []))
       = Inr [(''status'', PStr ''ok''), (''id'', PNone)]
   \<and> fst (submit_contact (mem_env False True True)
            \<lparr>name = ''A'', email = ''a@b.com'', message = ''hi''\<rparr> (module_load []))
       = Inr [(''status'', PStr ''ok''), (''id'', PNone)]"
proof -
  let ?p = "\<lparr>name = ''A'', email = ''a@b.com'', message = ''hi''\<rparr>"
  let ?msg = "[(''name'', PStr ''A''), (''email'', PStr ''a@b.com''), (''message'', PStr ''hi'')]"
  have h: "MessageSchema (mem_env present reads writes) (name ?p) (email ?p) (message ?p) = Inr ?msg"
    for present reads writes
    by (simp add: mem_env_def message_fields_def)
  show ?thesis
    using submit_contact_always_ok [OF h, of True True True "module_load []"]
          submit_contact_always_ok [OF h, of True True False "module_load []"]
          submit_contact_always_ok [OF h, of False True True "module_load []"]
          h [of True True True]
    by (simp add: mem_env_def mem_create_document_def module_load_def)
qed

subsection \<open>C7: the internal identifier of a store record\<close>

text \<open>
  Claim C7. Every record that \<^verbatim>\<open>list_projects\<close> or \<^verbatim>\<open>get_project\<close> returns from the
  store is a record the store gave, after the renaming of lines 130 to 131 and 147 to
  148. A renamed record has no \<^verbatim>\<open>_id\<close> field; when the store's record had one, the
  renamed record carries under \<^verbatim>\<open>id\<close> the \<^verbatim>\<open>str\<close> of its value; a record without
  \<^verbatim>\<open>_id\<close> is returned as it is.
\<close>

theorem store_records_expose_id:
  "(fst (list_projects_try E limit st) = Some rs \<longrightarrow>
      (\<exists>docs s s'. get_documents E s ''project'' [] (limit_or_50 limit) = (Inr docs, s')
         \<and> response_projects (list_projects E limit st) = Inr (map (rename_id (py_str E)) docs)))
   \<and> (fst (get_project_try E slug st) = Some r \<longrightarrow>
      (\<exists>d ds s s'. get_documents E s ''project'' [(''slug'', PStr slug)] 1 = (Inr (d # ds), s')
         \<and> response_project (get_project E slug st) = Inr (rename_id (py_str E) d)))
   \<and> map_of (rename_id f doc) ''_id'' = None
   \<and> (map_of doc ''_id'' = Some v \<longrightarrow> map_of (rename_id f doc) ''id'' = Some (PStr (f v)))
   \<and> (map_of doc ''_id'' = None \<longrightarrow> rename_id f doc = doc)"
  using list_projects_store_records [of E limit st rs] get_project_store_record [of E slug st r]
    rename_id_hides [of f doc] rename_id_exposes [of doc v f] rename_id_absent [of doc f]
  by blast

text \<open>A store holding one project record, listed and looked up by its slug.\<close>

theorem store_records_expose_id_witness:
  "fst (list_projects_try (mem_env True True True) None (module_load [(''project'', stored_project)]))
      = Some [3]
   \<and> fst (get_project_try (mem_env True True True) ''x'' (module_load [(''project'', stored_project)]))
      = Some 3
   \<and> map_of stored_project ''_id'' = Some (PObjectId ''abc'')
   \<and> response_projects (list_projects (mem_env True True True) None
         (module_load [(''project'', stored_project)]))
      = Inr [[(''slug'', PStr ''x''), (''id'', PStr ''abc'')]]
   \<and> response_project (get_project (mem_env True True True) ''x''
         (module_load [(''project'', stored_project)]))
      = Inr [(''slug'', PStr ''x''), (''id'', PStr ''abc'')]
   \<and> map_of (rename_id str_of_id stored_project) ''_id'' = None
   \<and> map_of (rename_id str_of_id stored_project) ''id'' = Some (PStr ''abc'')"
proof -
  let ?M = "mem_env True True True"
  let ?st = "module_load [(''project'', stored_project)]"
  have g1: "get_documents ?M (store ?st) ''project'' [] (limit_or_50 None)
              = (Inr [stored_project], [(''project'', stored_project)])"
    by (simp add: mem_env_def mem_get_documents_def module_load_def limit_or_50_def)
  have g2: "get_documents ?M (store ?st) ''project'' [(''slug'', PStr ''x'')] 1
              = (Inr [stored_project], [(''project'', stored_project)])"
    by (simp add: mem_env_def mem_get_documents_def module_load_def stored_project_def)
  have db: "db ?M" and str: "py_str ?M = str_of_id"
    by (simp_all add: mem_env_def)
  have len: "length (heap ?st) = 3"
    by (simp add: module_load_def SAMPLE_PROJECTS_def)
  have h1: "fst (list_projects_try ?M None ?st) = Some [3]"
    using try_records [OF db g1] len by simp
  have h2: "fst (get_project_try ?M ''x'' ?st) = Some 3"
    using get_project_try_record [OF db g2] len by simp
  have h3: "map_of stored_project ''_id'' = Some (PObjectId ''abc'')"
    by (simp add: stored_project_def)
  have r: "rename_id str_of_id stored_project = [(''slug'', PStr ''x''), (''id'', PStr ''abc'')]"
    by (simp add: rename_id_def stored_project_def)
  have l: "response_projects (list_projects ?M None ?st) = Inr [rename_id str_of_id stored_project]"
    using list_projects_store_response [OF try_records [OF db g1]] str by simp
  have g: "response_project (get_project ?M ''x'' ?st) = Inr (rename_id str_of_id stored_project)"
    using get_project_try_record [OF db g2] str
    by (simp add: response_project_def get_project_def)
  show ?thesis
    using store_records_expose_id [of ?M None ?st "[3]" "''x''" 3 str_of_id stored_project "PObjectId ''abc''"]
      h1 h2 h3 l g r
    by simp
qed

subsection \<open>C8: the Sample Dataset is never mutated\<close>

text \<open>
  Claim C8. The Sample Dataset is set up once, when the module is loaded, and no
  sequence of requests to the three endpoints that use it or the store changes it: the
  list bound to \<^verbatim>\<open>SAMPLE_PROJECTS\<close> holds the same references in the same order, and
  the dicts they point to are the literal's. This includes the seeding of lines 122 to
  126, which hands each entry to \<^verbatim>\<open>create_document\<close>, and the renaming loops, which
  write to dict objects: those are the records the store returned, never an entry.
\<close>

theorem sample_dataset_never_mutated:
  "sample_intact (module_load s)
   \<and> (sample_intact st \<longrightarrow>
        sample_projects (serve E reqs st) = sample_projects st
        \<and> deref (serve E reqs st) (sample_projects st) = SAMPLE_PROJECTS
        \<and> sample_intact (serve E reqs st))"
proof (intro conjI impI)
  show "sample_intact (module_load s)"
    by (rule sample_intact_module_load)
next
  assume a: "sample_intact st"
  show "sample_projects (serve E reqs st) = sample_projects st"
    using serve_intact [OF a] by simp
next
  assume a: "sample_intact st"
  have same: "sample_projects (serve E reqs st) = sample_projects st"
    using serve_intact [OF a] by simp
  have "sample_intact (serve E reqs st)"
    using serve_intact [OF a] by simp
  then have "deref (serve E reqs st) (sample_projects (serve E reqs st)) = SAMPLE_PROJECTS"
    unfolding sample_intact_def by (rule conjunct2)
  then show "deref (serve E reqs st) (sample_projects st) = SAMPLE_PROJECTS"
    by (simp only: same)
next
  assume a: "sample_intact st"
  show "sample_intact (serve E reqs st)"
    using serve_intact [OF a] by simp
qed

text \<open>
  Four requests against the empty example store, the first of which seeds it.
\<close>

theorem sample_dataset_never_mutated_witness:
  "sample_intact (module_load ([] :: mem))
   \<and> sample_projects (serve (mem_env True True True) example_requests (module_load []))
       = sample_projects (module_load ([] :: mem))
   \<and> deref (serve (mem_env True True True) example_requests (module_load []))
        (sample_projects (module_load ([] :: mem))) = SAMPLE_PROJECTS"
  using sample_dataset_never_mutated [of "[] :: mem" "module_load []" "mem_env True True True" example_requests]
  by blast

subsection \<open>C9: a zero limit on the fallback path\<close>

text \<open>
  Claim C9. With the store handle absent, \<^verbatim>\<open>list_projects\<close> called with
  \<^verbatim>\<open>limit=0\<close> returns the whole Sample Dataset and not an empty list: line 136
  slices only for a truthy limit, so the call returns what the call without a limit
  returns.
\<close>

theorem list_projects_limit_zero:
  assumes "\<not> db E" and "sample_intact st"
  shows "response_projects (list_projects E (Some 0) st) = Inr SAMPLE_PROJECTS
       \<and> response_projects (list_projects E (Some 0) st) \<noteq> Inr []
       \<and> list_projects E (Some 0) st = list_projects E None st"
proof -
  have "fst (list_projects_try E (Some 0) st) = None"
    using assms(1) by (simp add: try_absent)
  then have "response_projects (list_projects E (Some 0) st) = Inr (sample_fallback (Some 0) SAMPLE_PROJECTS)"
    using assms(2) by (simp add: list_projects_fallback_response)
  moreover have "sample_fallback (Some 0) SAMPLE_PROJECTS = SAMPLE_PROJECTS"
    by (simp add: sample_fallback_def)
  moreover have "SAMPLE_PROJECTS \<noteq> []"
    by (simp add: SAMPLE_PROJECTS_def)
  moreover have "list_projects E (Some 0) st = list_projects E None st"
    using assms(1) by (simp add: list_projects_def try_absent sample_fallback_def)
  ultimately show ?thesis by simp
qed

text \<open>The same at the loaded module, with the handle of the example store absent.\<close>

theorem list_projects_limit_zero_witness:
  "\<not> db (mem_env False True True) \<and> sample_intact (module_load ([] :: mem))
   \<and> response_projects (list_projects (mem_env False True True) (Some 0) (module_load [])) = Inr SAMPLE_PROJECTS
   \<and> list_projects (mem_env False True True) (Some 0) (module_load []) = list_projects (mem_env False True True) None (module_load [])"
proof -
  have h1: "\<not> db (mem_env False True True)"
    by (simp add: mem_env_def)
  have h2: "sample_intact (module_load ([] :: mem))"
    by (rule sample_intact_module_load)
  show ?thesis
    using list_projects_limit_zero [OF h1 h2] h1 h2 by blast
qed

subsection \<open>C10: fallback records carry no identifier\<close>

text \<open>
  Claim C10. Every record that \<^verbatim>\<open>list_projects\<close> or \<^verbatim>\<open>get_project\<close> returns on its
  fallback path (the store gave no answer) is an entry of the Sample Dataset exactly as
  the literal defines it, and so has neither an \<^verbatim>\<open>id\<close> nor an \<^verbatim>\<open>_id\<close> field: the
  renaming is applied to store records only.
\<close>

theorem fallback_records_as_defined:
  assumes "sample_intact st"
  shows "(reads_fail E limit (store st) \<longrightarrow>
            (\<exists>ps. response_projects (list_projects E limit st) = Inr ps
               \<and> list_all (\<lambda>p. p \<in> set SAMPLE_PROJECTS
                                \<and> map_of p ''id'' = None \<and> map_of p ''_id'' = None) ps))
       \<and> (lookup_misses E slug (store st) \<longrightarrow>
            (\<forall>p. response_project (get_project E slug st) = Inr p \<longrightarrow>
               p \<in> set SAMPLE_PROJECTS \<and> map_of p ''id'' = None \<and> map_of p ''_id'' = None))"
proof -
  have samples: "list_all (\<lambda>p. p \<in> set SAMPLE_PROJECTS
                                \<and> map_of p ''id'' = None \<and> map_of p ''_id'' = None)
                   (sample_fallback limit SAMPLE_PROJECTS)"
    using samples_no_id set_sample_fallback [of limit SAMPLE_PROJECTS]
    by (auto simp: list_all_iff)
  have listing: "\<exists>ps. response_projects (list_projects E limit st) = Inr ps
               \<and> list_all (\<lambda>p. p \<in> set SAMPLE_PROJECTS
                                \<and> map_of p ''id'' = None \<and> map_of p ''_id'' = None) ps"
    if "reads_fail E limit (store st)"
  proof -
    have "response_projects (list_projects E limit st) = Inr (sample_fallback limit SAMPLE_PROJECTS)"
      using assms that by (simp add: list_projects_fallback_response try_None_iff)
    then show ?thesis
      using samples by blast
  qed
  have lookup: "p \<in> set SAMPLE_PROJECTS \<and> map_of p ''id'' = None \<and> map_of p ''_id'' = None"
    if miss: "lookup_misses E slug (store st)"
      and p: "response_project (get_project E slug st) = Inr p" for p
  proof -
    have "find (\<lambda>p. map_of p ''slug'' = Some (PStr slug)) SAMPLE_PROJECTS = Some p"
      using get_project_fallback_response [OF assms miss] p
      by (simp split: option.splits)
    then have "p \<in> set SAMPLE_PROJECTS"
      by (auto simp: find_Some_iff)
    then show ?thesis
      using samples_no_id by (auto simp: list_all_iff)
  qed
  show ?thesis
    using listing lookup by blast
qed

text \<open>A store whose reads raise: the listing with \<^verbatim>\<open>limit=2\<close> and a lookup.\<close>

theorem fallback_records_as_defined_witness:
  "sample_intact (module_load ([] :: mem))
   \<and> reads_fail (mem_env True False True) (Some 2) (store (module_load ([] :: mem)))
   \<and> lookup_misses (mem_env True False True) ''data-driven-portfolio-engine'' (store (module_load ([] :: mem)))
   \<and> response_project (get_project (mem_env True False True) ''data-driven-portfolio-engine'' (module_load []))
        = Inr (SAMPLE_PROJECTS ! 2)
   \<and> map_of (SAMPLE_PROJECTS ! 2) ''id'' = None
   \<and> map_of (SAMPLE_PROJECTS ! 2) ''_id'' = None
   \<and> (\<exists>ps. response_projects (list_projects (mem_env True False True) (Some 2) (module_load [])) = Inr ps
         \<and> list_all (\<lambda>p. p \<in> set SAMPLE_PROJECTS
                          \<and> map_of p ''id'' = None \<and> map_of p ''_id'' = None) ps)"
proof -
  let ?M = "mem_env True False True"
  let ?st = "module_load ([] :: mem)"
  have h1: "sample_intact ?st"
    by (rule sample_intact_module_load)
  have h2: "reads_fail ?M (Some 2) (store ?st)"
    by (simp add: reads_fail_def mem_env_def mem_get_documents_def)
  have h3: "lookup_misses ?M ''data-driven-portfolio-engine'' (store ?st)"
    by (simp add: lookup_misses_def mem_env_def mem_get_documents_def)
  have f: "find (\<lambda>p. map_of p ''slug'' = Some (PStr ''data-driven-portfolio-engine'')) SAMPLE_PROJECTS
             = Some (SAMPLE_PROJECTS ! 2)"
    by (simp add: SAMPLE_PROJECTS_def)
  have r: "response_project (get_project ?M ''data-driven-portfolio-engine'' ?st) = Inr (SAMPLE_PROJECTS ! 2)"
    using get_project_fallback_response [OF h1 h3] f by simp
  show ?thesis
    using fallback_records_as_defined [OF h1, of ?M "Some 2" "''data-driven-portfolio-engine''"]
      h1 h2 h3 r
    by blast
qed

end
